theory Spec2Isabelle
  imports Complex_Main "HOL-Library.Word"
begin

section \<open>The ESC controller of the UAVCAN node (esc\_controller.cpp)\<close>

text \<open>
  The file holds three handlers and one bring-up function.  \<open>cb_raw_command\<close> and
  \<open>cb_rpm_command\<close> turn a received command broadcast into one call of the motor driver,
  \<open>cb_esc\<close> is the periodic timer callback that publishes the two telemetry messages, and
  \<open>init_esc_controller\<close> reads the configuration and registers the handlers.

  The handlers call into the motor driver, the temperature sensor and the bus library.  What
  they read from these collaborators is an argument of the model, and every call they make
  is appended to a log kept in the state, in the order the source makes it.
\<close>

subsection \<open>Machine types\<close>

text \<open>\<open>unsigned\<close> on the target (32-bit ARM) is a 32-bit word.\<close>

type_synonym unsigned = "32 word"

text \<open>
  A value of the C type \<open>float\<close>: a finite number, given by the rational it denotes, one of
  the two infinities, or not-a-number.  The two zeros of IEEE 754 are one value here; they
  compare equal, and the only zero the handlers ever divide by comes from converting an
  integer, which is the positive one.
\<close>

datatype float = Finite rat | PosInf | NegInf | NaN

text \<open>The comparisons \<open><\<close> and \<open><=\<close> on floats: false as soon as one side is not-a-number.\<close>

fun float_less :: "float \<Rightarrow> float \<Rightarrow> bool" where
  "float_less NaN _ = False"
| "float_less _ NaN = False"
| "float_less (Finite a) (Finite b) = (a < b)"
| "float_less _ NegInf = False"
| "float_less PosInf _ = False"
| "float_less NegInf _ = True"
| "float_less _ PosInf = True"

fun float_le :: "float \<Rightarrow> float \<Rightarrow> bool" where
  "float_le NaN _ = False"
| "float_le _ NaN = False"
| "float_le (Finite a) (Finite b) = (a \<le> b)"
| "float_le NegInf _ = True"
| "float_le _ PosInf = True"
| "float_le _ NegInf = False"
| "float_le PosInf _ = False"

text \<open>Number of binary digits of a positive integer.\<close>

function bit_length :: "int \<Rightarrow> int" where
  "bit_length n = (if n \<le> 0 then 0 else 1 + bit_length (n div 2))"
  by pat_completeness auto
termination
  by (relation "measure nat") auto

text \<open>For \<open>x > 0\<close>, the exponent \<open>e\<close> with \<open>2^e \<le> x < 2^(e+1)\<close>.\<close>

definition ilog2 :: "rat \<Rightarrow> int" where
  "ilog2 x =
     (let (p, q) = quotient_of x;
          e = bit_length p - bit_length q
      in if 2 powi e \<le> x then e else e - 1)"

definition round_half_even :: "rat \<Rightarrow> int" where
  "round_half_even x =
     (let f = \<lfloor>x\<rfloor>; d = x - of_int f
      in if d < 1 / 2 then f
         else if 1 / 2 < d then f + 1
         else if even f then f else f + 1)"

text \<open>
  Rounding of an exact result to binary32, to nearest with ties to even: 24 significant
  bits, the smallest exponent \<open>-126\<close> (below it the spacing stays \<open>2^-149\<close>), and an
  infinity when the rounded magnitude reaches \<open>2^128\<close>.
\<close>

definition round_to_float :: "rat \<Rightarrow> float" where
  "round_to_float x =
     (if x = 0 then Finite 0
      else let e = max (ilog2 \<bar>x\<bar>) (- 126);
               ulp = 2 powi (e - 23);
               y = of_int (round_half_even (x / ulp)) * ulp
           in if \<bar>y\<bar> < 2 ^ 128 then Finite y
              else if 0 < x then PosInf else NegInf)"

text \<open>Conversion of an integer to \<open>float\<close>.\<close>

definition float_of_int :: "int \<Rightarrow> float" where
  "float_of_int i = round_to_float (of_int i)"

text \<open>Whether a float carries a negative sign (zero counts as positive, see above).\<close>

fun float_negative :: "float \<Rightarrow> bool" where
  "float_negative (Finite a) = (a < 0)"
| "float_negative NegInf = True"
| "float_negative _ = False"

definition signed_inf :: "bool \<Rightarrow> float" where
  "signed_inf neg = (if neg then NegInf else PosInf)"

fun is_inf :: "float \<Rightarrow> bool" where
  "is_inf PosInf = True"
| "is_inf NegInf = True"
| "is_inf _ = False"

fun float_div :: "float \<Rightarrow> float \<Rightarrow> float" where
  "float_div NaN _ = NaN"
| "float_div _ NaN = NaN"
| "float_div (Finite a) (Finite b) =
     (if b = 0 then (if a = 0 then NaN else signed_inf (a < 0))
      else round_to_float (a / b))"
| "float_div (Finite a) _ = Finite 0"
| "float_div x y =
     (if is_inf y then NaN else signed_inf (float_negative x \<noteq> float_negative y))"

fun float_mul :: "float \<Rightarrow> float \<Rightarrow> float" where
  "float_mul NaN _ = NaN"
| "float_mul _ NaN = NaN"
| "float_mul (Finite a) (Finite b) = round_to_float (a * b)"
| "float_mul x y =
     (if x = Finite 0 \<or> y = Finite 0 then NaN
      else signed_inf (float_negative x \<noteq> float_negative y))"

fun float_add :: "float \<Rightarrow> float \<Rightarrow> float" where
  "float_add NaN _ = NaN"
| "float_add _ NaN = NaN"
| "float_add (Finite a) (Finite b) = round_to_float (a + b)"
| "float_add (Finite a) y = y"
| "float_add x (Finite b) = x"
| "float_add x y = (if x = y then x else NaN)"

text \<open>
  \<open>static_cast<unsigned>\<close> of a float: the fraction is discarded, and the behaviour is
  undefined (\<open>None\<close>) unless the truncated value fits the unsigned type.
\<close>

definition truncate_rat :: "rat \<Rightarrow> int" where
  "truncate_rat x = (if 0 \<le> x then \<lfloor>x\<rfloor> else - \<lfloor>- x\<rfloor>)"

fun float_to_unsigned :: "float \<Rightarrow> unsigned option" where
  "float_to_unsigned (Finite a) =
     (if 0 \<le> truncate_rat a \<and> truncate_rat a < 2 ^ 32
      then Some (word_of_int (truncate_rat a)) else None)"
| "float_to_unsigned _ = None"

subsection \<open>Messages, collaborators and the module state\<close>

text \<open>
  The received command messages.  \<open>cmd\<close> and \<open>rpm\<close> are the variable-length arrays of the
  two broadcasts, one signed integer per ESC; the handlers use nothing else of a message.
\<close>

record RawCommand =
  cmd :: "int list"

record RPMCommand =
  rpm :: "int list"

text \<open>The calls of the motor driver that a command handler can make.\<close>

datatype motor_call =
    MotorSetDutyCycle float unsigned
  | MotorSetRpm int unsigned
  | MotorStop

text \<open>The two published messages, with the fields that \<open>cb_esc\<close> assigns.\<close>

record RPMFeedback =
  fb_esc_index :: unsigned
  fb_rpm :: int

record Status =
  st_esc_index :: unsigned
  st_voltage :: float
  st_current :: float
  st_power_rating_pct :: "unsigned option"
  st_error_count :: unsigned
  st_temperature :: float

datatype broadcast = BroadcastRPMFeedback RPMFeedback | BroadcastStatus Status

text \<open>
  Modelled from the spec: the readings of the actuation device and of the temperature
  sensor.  Their declarations (motor.h, temperature\_sensor.hpp) are not among the sources;
  the spec gives \<open>isIdle() -> bool\<close>, \<open>measuredRpm() -> int\<close>,
  \<open>voltageAndCurrent() -> (float, float)\<close>, \<open>faultCountSinceStart() -> uint\<close> and
  \<open>temperatureKelvin() -> float\<close>, a negative temperature meaning an invalid reading.
  One value of this record is what the collaborators answer during one handler call.
\<close>

record readings =
  motor_is_idle :: bool
  motor_get_rpm :: int
  motor_get_input_voltage :: float
  motor_get_input_current :: float
  motor_get_duty_cycle :: float
  motor_get_zc_failures_since_start :: unsigned
  get_temperature_K :: float

text \<open>
  Modelled from the spec: the monotonic clock of the bus library (uavcan::MonotonicTime,
  uavcan::MonotonicDuration), which is not among the sources.  A time is a number of
  microseconds, the difference of two times is a signed number of microseconds.
\<close>

type_synonym MonotonicTime = nat
type_synonym MonotonicDuration = int

definition time_diff :: "MonotonicTime \<Rightarrow> MonotonicTime \<Rightarrow> MonotonicDuration" where
  "time_diff a b = int a - int b"

text \<open>Whole milliseconds of a duration; the integer division of C++ truncates towards zero.\<close>

definition toMSec :: "MonotonicDuration \<Rightarrow> int" where
  "toMSec d = sgn d * (\<bar>d\<bar> div 1000)"

definition fromMSec :: "int \<Rightarrow> MonotonicDuration" where
  "fromMSec ms = ms * 1000"

record TimerEvent =
  scheduled_time :: MonotonicTime
  real_time :: MonotonicTime

text \<open>
  The steps of bring-up that \<open>init_esc_controller\<close> asks of the bus library.  The two
  publisher steps stand for creating the publisher and calling its \<open>init\<close>.
\<close>

datatype setup_call =
    SubRawCommandStart
  | SubRpmCommandStart
  | PubStatusInit
  | PubRpmFbInit
  | TimerSetCallback
  | TimerStartPeriodic MonotonicDuration

text \<open>
  The module's variables: the four configuration values, the static local \<open>prev_pub_ts\<close>
  of \<open>cb_esc\<close>, and the logs of the calls made to the motor driver, to the two publishers
  and to the bus library during bring-up.
\<close>

record esc_controller =
  publish_rate_ms :: unsigned
  self_index :: unsigned
  command_ttl_ms :: unsigned
  max_dc_to_start :: float
  prev_pub_ts :: MonotonicTime
  motor_calls :: "motor_call list"
  broadcasts :: "broadcast list"
  setup_calls :: "setup_call list"

definition motor_stop :: "esc_controller \<Rightarrow> esc_controller" where
  "motor_stop s = s\<lparr>motor_calls := motor_calls s @ [MotorStop]\<rparr>"

definition motor_set_duty_cycle :: "float \<Rightarrow> unsigned \<Rightarrow> esc_controller \<Rightarrow> esc_controller" where
  "motor_set_duty_cycle dc ttl_ms s = s\<lparr>motor_calls := motor_calls s @ [MotorSetDutyCycle dc ttl_ms]\<rparr>"

definition motor_set_rpm :: "int \<Rightarrow> unsigned \<Rightarrow> esc_controller \<Rightarrow> esc_controller" where
  "motor_set_rpm r ttl_ms s = s\<lparr>motor_calls := motor_calls s @ [MotorSetRpm r ttl_ms]\<rparr>"

definition broadcast :: "broadcast \<Rightarrow> esc_controller \<Rightarrow> esc_controller" where
  "broadcast m s = s\<lparr>broadcasts := broadcasts s @ [m]\<rparr>"

definition node_call :: "setup_call \<Rightarrow> esc_controller \<Rightarrow> esc_controller" where
  "node_call c s = s\<lparr>setup_calls := setup_calls s @ [c]\<rparr>"

subsection \<open>The command handlers\<close>

text \<open>
  Every handler is given the collaborators' current answers \<open>dev\<close>; which of them it
  asks for is in its body.  \<open>raw_max\<close> stands for \<open>RawCommand::FieldTypes::cmd::RawValueType::max()\<close>, the largest
  value of an element of \<open>cmd\<close>; the generated message header that fixes it is not among
  the sources.
\<close>

definition scaled_dc :: "int \<Rightarrow> esc_controller \<Rightarrow> RawCommand \<Rightarrow> float" where
  "scaled_dc raw_max s msg =
     float_div (float_of_int (cmd msg ! unat (self_index s))) (float_of_int raw_max)"

definition cb_raw_command ::
  "int \<Rightarrow> RawCommand \<Rightarrow> readings \<Rightarrow> esc_controller \<Rightarrow> esc_controller" where
  "cb_raw_command raw_max msg dev s =
     (if length (cmd msg) \<le> unat (self_index s) then motor_stop s
      else
        let dc = scaled_dc raw_max s msg;
            idle = motor_is_idle dev;
            accept = (\<not> idle \<or> (idle \<and> float_le dc (max_dc_to_start s)))
        in if accept \<and> float_less (Finite 0) dc
           then motor_set_duty_cycle dc (command_ttl_ms s) s
           else motor_stop s)"

definition cb_rpm_command :: "RPMCommand \<Rightarrow> readings \<Rightarrow> esc_controller \<Rightarrow> esc_controller" where
  "cb_rpm_command msg dev s =
     (if length (rpm msg) \<le> unat (self_index s) then motor_stop s
      else
        let r = rpm msg ! unat (self_index s)
        in if 0 < r then motor_set_rpm r (command_ttl_ms s) s
           else motor_stop s)"

subsection \<open>The timer callback\<close>

text \<open>
  The Status message as \<open>cb_esc\<close> fills it in, before it decides whether to send it.  The
  sensor's reading is a float already (see \<open>readings\<close>), so the conversion \<open>float(...)\<close>
  of the source keeps it.  The timer callback is installed at the end of a successful
  bring-up only, after both publishers exist.
\<close>

definition msg_status :: "readings \<Rightarrow> esc_controller \<Rightarrow> Status" where
  "msg_status dev s =
     \<lparr> st_esc_index = self_index s,
       st_voltage = motor_get_input_voltage dev,
       st_current = motor_get_input_current dev,
       st_power_rating_pct =
         float_to_unsigned
           (float_add (float_mul (motor_get_duty_cycle dev) (float_of_int 100)) (Finite (1 / 2))),
       st_error_count = motor_get_zc_failures_since_start dev,
       st_temperature =
         (let t = get_temperature_K dev
          in if float_less t (Finite 0) then NaN else t) \<rparr>"

definition msg_rpm_fb :: "readings \<Rightarrow> esc_controller \<Rightarrow> RPMFeedback" where
  "msg_rpm_fb dev s = \<lparr> fb_esc_index = self_index s, fb_rpm = motor_get_rpm dev \<rparr>"

definition cb_esc :: "TimerEvent \<Rightarrow> readings \<Rightarrow> esc_controller \<Rightarrow> esc_controller" where
  "cb_esc event dev s =
     (let s1 = broadcast (BroadcastRPMFeedback (msg_rpm_fb dev s)) s;
          st = msg_status dev s1
      in if 990 \<le> toMSec (time_diff (scheduled_time event) (prev_pub_ts s1))
         then broadcast (BroadcastStatus st) (s1\<lparr>prev_pub_ts := scheduled_time event\<rparr>)
         else s1)"

subsection \<open>Bring-up\<close>

text \<open>
  The configuration parameters as the parameter store returns them, and the return codes
  of the four calls into the bus library that can fail.
\<close>

record params =
  param_pub_rate_ms :: unsigned
  param_esc_index :: unsigned
  param_cmd_ttl_ms :: unsigned
  param_cmd_start_dc :: float

record node_results =
  sub_raw_command_start :: int
  sub_rpm_command_start :: int
  pub_status_init :: int
  pub_rpm_fb_init :: int

definition init_esc_controller ::
  "params \<Rightarrow> node_results \<Rightarrow> esc_controller \<Rightarrow> int \<times> esc_controller" where
  "init_esc_controller p node s =
     (let s0 = s\<lparr>publish_rate_ms := param_pub_rate_ms p,
                  self_index := param_esc_index p,
                  command_ttl_ms := param_cmd_ttl_ms p,
                  max_dc_to_start := param_cmd_start_dc p\<rparr>;
          s1 = node_call SubRawCommandStart s0;
          res = sub_raw_command_start node
      in if res \<noteq> 0 then (res, s1)
         else
           let s2 = node_call SubRpmCommandStart s1;
               res = sub_rpm_command_start node
           in if res \<noteq> 0 then (res, s2)
              else
                let s3 = node_call PubStatusInit s2;
                    res = pub_status_init node
                in if res \<noteq> 0 then (res, s3)
                   else
                     let s4 = node_call PubRpmFbInit s3;
                         res = pub_rpm_fb_init node
                     in if res \<noteq> 0 then (res, s4)
                        else
                          let s5 = node_call TimerSetCallback s4;
                              s6 = node_call
                                     (TimerStartPeriodic (fromMSec (uint (publish_rate_ms s5)))) s5
                          in (0, s6))"

subsection \<open>Sequences of handler invocations\<close>

text \<open>
  The node runs the handlers one at a time from a single context: each received message and
  each timer tick is one invocation, with the answers the collaborators give during it.
\<close>

datatype event =
    RawCommandReceived RawCommand readings
  | RpmCommandReceived RPMCommand readings
  | TimerTick TimerEvent readings

fun dispatch :: "int \<Rightarrow> event \<Rightarrow> esc_controller \<Rightarrow> esc_controller" where
  "dispatch raw_max (RawCommandReceived msg dev) s = cb_raw_command raw_max msg dev s"
| "dispatch raw_max (RpmCommandReceived msg dev) s = cb_rpm_command msg dev s"
| "dispatch raw_max (TimerTick ev dev) s = cb_esc ev dev s"

fun run :: "int \<Rightarrow> event list \<Rightarrow> esc_controller \<Rightarrow> esc_controller" where
  "run raw_max [] s = s"
| "run raw_max (e # es) s = run raw_max es (dispatch raw_max e s)"

text \<open>What one invocation appended to the log of published messages.\<close>

definition published :: "esc_controller \<Rightarrow> esc_controller \<Rightarrow> broadcast list" where
  "published s s' = drop (length (broadcasts s)) (broadcasts s')"

fun is_status :: "broadcast \<Rightarrow> bool" where
  "is_status (BroadcastStatus _) = True"
| "is_status (BroadcastRPMFeedback _) = False"

definition status_sent :: "esc_controller \<Rightarrow> esc_controller \<Rightarrow> bool" where
  "status_sent s s' = list_ex is_status (published s s')"

text \<open>The scheduled times of the ticks of a run at which a Status message went out.\<close>

fun status_times :: "int \<Rightarrow> event list \<Rightarrow> esc_controller \<Rightarrow> MonotonicTime list" where
  "status_times raw_max [] s = []"
| "status_times raw_max (TimerTick ev dev # es) s =
     (if status_sent s (cb_esc ev dev s) then [scheduled_time ev] else [])
     @ status_times raw_max es (cb_esc ev dev s)"
| "status_times raw_max (e # es) s = status_times raw_max es (dispatch raw_max e s)"

text \<open>The motor calls that one invocation appended.\<close>

definition issued :: "esc_controller \<Rightarrow> esc_controller \<Rightarrow> motor_call list" where
  "issued s s' = drop (length (motor_calls s)) (motor_calls s')"

text \<open>The calls into the bus library that bring-up appended, and whether one starts the timer.\<close>

definition requested :: "esc_controller \<Rightarrow> esc_controller \<Rightarrow> setup_call list" where
  "requested s s' = drop (length (setup_calls s)) (setup_calls s')"

fun is_timer_start :: "setup_call \<Rightarrow> bool" where
  "is_timer_start (TimerStartPeriodic _) = True"
| "is_timer_start _ = False"

subsection \<open>Example inputs\<close>

text \<open>
  The node of the spec's examples: ESC index 3, a command window of 200 ms and a start-up
  limit of 0.05, held as the binary32 number nearest to it (13421773 / 2^28); and a motor
  at rest and a spinning one.
\<close>

abbreviation spec_example_state :: esc_controller where
  "spec_example_state \<equiv>
     \<lparr> publish_rate_ms = 40, self_index = 3, command_ttl_ms = 200,
       max_dc_to_start = Finite (13421773 / 268435456), prev_pub_ts = 0,
       motor_calls = [], broadcasts = [], setup_calls = [] \<rparr>"

abbreviation idle_motor :: readings where
  "idle_motor \<equiv>
     \<lparr> motor_is_idle = True, motor_get_rpm = 0,
       motor_get_input_voltage = Finite 12, motor_get_input_current = Finite 0,
       motor_get_duty_cycle = Finite 0, motor_get_zc_failures_since_start = 0,
       get_temperature_K = Finite 300 \<rparr>"

abbreviation running_motor :: readings where
  "running_motor \<equiv> idle_motor\<lparr>motor_is_idle := False, motor_get_rpm := 4200\<rparr>"

text \<open>A timer tick scheduled at \<open>t\<close> microseconds, with the motor spinning.\<close>

abbreviation tick_at :: "nat \<Rightarrow> event" where
  "tick_at t \<equiv> TimerTick \<lparr>scheduled_time = t, real_time = t\<rparr> running_motor"

text \<open>A spinning motor at half duty cycle whose temperature sensor reports an invalid reading.\<close>

abbreviation cold_sensor :: readings where
  "cold_sensor \<equiv> running_motor\<lparr>motor_get_duty_cycle := Finite (1 / 2), get_temperature_K := Finite (- 1)\<rparr>"

text \<open>The configuration of the example node.\<close>

abbreviation example_params :: params where
  "example_params \<equiv>
     \<lparr> param_pub_rate_ms = 40, param_esc_index = 3, param_cmd_ttl_ms = 200,
       param_cmd_start_dc = Finite (13421773 / 268435456) \<rparr>"

text \<open>The module's variables before bring-up: statics are zero-initialised.\<close>

abbreviation static_init :: esc_controller where
  "static_init \<equiv>
     \<lparr> publish_rate_ms = 0, self_index = 0, command_ttl_ms = 0,
       max_dc_to_start = Finite 0, prev_pub_ts = 0,
       motor_calls = [], broadcasts = [], setup_calls = [] \<rparr>"

text \<open>Bring-up in which every call into the bus library succeeds.\<close>

abbreviation all_started :: node_results where
  "all_started \<equiv>
     \<lparr> sub_raw_command_start = 0, sub_rpm_command_start = 0,
       pub_status_init = 0, pub_rpm_fb_init = 0 \<rparr>"

section \<open>Properties\<close>

subsection \<open>Auxiliary facts\<close>

lemma float_less_not_le: "float_less a b \<Longrightarrow> \<not> float_le b a"
  by (cases a; cases b) auto

lemma motor_set_duty_cycle_neq_stop: "motor_set_duty_cycle dc ttl s \<noteq> motor_stop s"
proof
  assume "motor_set_duty_cycle dc ttl s = motor_stop s"
  then have "motor_calls (motor_set_duty_cycle dc ttl s) = motor_calls (motor_stop s)"
    by simp
  then show False
    by (simp add: motor_set_duty_cycle_def motor_stop_def)
qed

lemma cb_raw_command_in_range:
  assumes "unat (self_index s) < length (cmd msg)"
  shows "cb_raw_command raw_max msg dev s =
    (if float_less (Finite 0) (scaled_dc raw_max s msg) \<and>
        (\<not> motor_is_idle dev \<or> float_le (scaled_dc raw_max s msg) (max_dc_to_start s))
     then motor_set_duty_cycle (scaled_dc raw_max s msg) (command_ttl_ms s) s
     else motor_stop s)"
  using assms by (auto simp: cb_raw_command_def Let_def)

text \<open>
  The raw values 819, 1638, 2457, 7372, 4096 over the maximum 8191 are the duty cycles
  0.1, 0.2, 0.3, 0.9, 0.5 of the spec's example; slot 3 scales to the binary32 number
  nearest to 7372/8191.
\<close>

lemma scaled_dc_example:
  "scaled_dc 8191 spec_example_state \<lparr>cmd = [819, 1638, 2457, 7372, 4096]\<rparr>
     = Finite (15099699 / 16777216)"
  by code_simp

text \<open>A raw value of 327 scales to just under 0.04, below the example's limit.\<close>

lemma scaled_dc_example_low:
  "scaled_dc 8191 spec_example_state \<lparr>cmd = [0, 0, 0, 327]\<rparr> = Finite (2679111 / 67108864)"
  by code_simp

subsection \<open>The command arbiter\<close>

text \<open>
  C1.  For a raw command with at least \<open>self_index + 1\<close> slots, \<open>cb_raw_command\<close> calls
  \<open>motor_set_duty_cycle\<close> with the scaled duty cycle and the command window exactly when
  the scaled value is positive and the motor is not idle or the value is at most
  \<open>max_dc_to_start\<close>; in every other case it calls \<open>motor_stop\<close>.  In particular an idle
  motor with a value above the limit (up to 1) is stopped, an idle motor with a positive
  value up to the limit gets the duty cycle, and a running motor gets every value in (0, 1]
  whatever the limit is.
\<close>

theorem cb_raw_command_gate:
  fixes raw_max :: int and s :: esc_controller and msg :: RawCommand and dev :: readings
  defines "scaled \<equiv> scaled_dc raw_max s msg"
  defines "issues_duty \<equiv>
    cb_raw_command raw_max msg dev s = motor_set_duty_cycle scaled (command_ttl_ms s) s"
  defines "issues_stop \<equiv> cb_raw_command raw_max msg dev s = motor_stop s"
  assumes slots: "unat (self_index s) + 1 \<le> length (cmd msg)"
  shows "(issues_duty \<longleftrightarrow>
            float_less (Finite 0) scaled \<and>
            (\<not> motor_is_idle dev \<or> float_le scaled (max_dc_to_start s)))
       \<and> (issues_stop \<longleftrightarrow> \<not> issues_duty)
       \<and> (motor_is_idle dev \<and> float_less (max_dc_to_start s) scaled \<and> float_le scaled (Finite 1)
            \<longrightarrow> issues_stop)
       \<and> (motor_is_idle dev \<and> float_less (Finite 0) scaled \<and> float_le scaled (max_dc_to_start s)
            \<longrightarrow> issues_duty)
       \<and> (\<not> motor_is_idle dev \<and> float_less (Finite 0) scaled \<and> float_le scaled (Finite 1)
            \<longrightarrow> issues_duty)"
proof -
  have r: "unat (self_index s) < length (cmd msg)"
    using slots by simp
  note eq = cb_raw_command_in_range [OF r, of raw_max dev, folded scaled_def]
  note ne = motor_set_duty_cycle_neq_stop [of scaled "command_ttl_ms s" s]
  have duty: "issues_duty \<longleftrightarrow>
      float_less (Finite 0) scaled \<and>
      (\<not> motor_is_idle dev \<or> float_le scaled (max_dc_to_start s))"
    unfolding issues_duty_def eq using ne by auto
  have stop: "issues_stop \<longleftrightarrow> \<not> issues_duty"
    unfolding issues_duty_def issues_stop_def eq using ne by auto
  have gate: "float_less (max_dc_to_start s) scaled \<Longrightarrow> \<not> float_le scaled (max_dc_to_start s)"
    by (rule float_less_not_le)
  show ?thesis
    using duty stop gate by blast
qed

text \<open>
  The spec's example: slot 3 holds 0.9 and the limit is 0.05, so the idle motor is stopped
  and the running motor is given the duty cycle; an idle motor asked for 0.04 is started.
\<close>

theorem cb_raw_command_gate_witness:
  "unat (self_index spec_example_state) + 1 \<le> length (cmd \<lparr>cmd = [819, 1638, 2457, 7372, 4096]\<rparr>)
   \<and> cb_raw_command 8191 \<lparr>cmd = [819, 1638, 2457, 7372, 4096]\<rparr> idle_motor spec_example_state
       = motor_stop spec_example_state
   \<and> cb_raw_command 8191 \<lparr>cmd = [819, 1638, 2457, 7372, 4096]\<rparr> running_motor spec_example_state
       = motor_set_duty_cycle (Finite (15099699 / 16777216)) 200 spec_example_state
   \<and> unat (self_index spec_example_state) + 1 \<le> length (cmd \<lparr>cmd = [0, 0, 0, 327]\<rparr>)
   \<and> cb_raw_command 8191 \<lparr>cmd = [0, 0, 0, 327]\<rparr> idle_motor spec_example_state
       = motor_set_duty_cycle (Finite (2679111 / 67108864)) 200 spec_example_state"
proof -
  have len: "unat (self_index spec_example_state) + 1
      \<le> length (cmd \<lparr>cmd = [819, 1638, 2457, 7372, 4096]\<rparr>)"
    by simp
  have len': "unat (self_index spec_example_state) + 1 \<le> length (cmd \<lparr>cmd = [0, 0, 0, 327]\<rparr>)"
    by simp
  show ?thesis
    using cb_raw_command_gate [OF len, of 8191 idle_motor]
      cb_raw_command_gate [OF len, of 8191 running_motor]
      cb_raw_command_gate [OF len', of 8191 idle_motor]
    by (simp add: scaled_dc_example scaled_dc_example_low)
qed

text \<open>
  C2.  A command message, raw or RPM, with fewer than \<open>self_index + 1\<close> slots makes its
  handler call \<open>motor_stop\<close>.  The resulting state is \<open>motor_stop s\<close>, in which no slot of
  the message occurs: every message that is too short has the same effect, whatever it holds.
\<close>

theorem undersized_message_stops:
  "(length (cmd rmsg) < unat (self_index s) + 1 \<longrightarrow>
      cb_raw_command raw_max rmsg dev s = motor_stop s)
   \<and> (length (rpm pmsg) < unat (self_index s) + 1 \<longrightarrow>
      cb_rpm_command pmsg dev s = motor_stop s)"
  by (simp add: cb_raw_command_def cb_rpm_command_def)

text \<open>The spec's example: ESC index 2 and an array of length 2.\<close>

theorem undersized_message_stops_witness:
  "length (rpm \<lparr>rpm = [100, - 5]\<rparr>) < unat (self_index (spec_example_state\<lparr>self_index := 2\<rparr>)) + 1
   \<and> length (cmd \<lparr>cmd = [8191, 8191]\<rparr>) < unat (self_index (spec_example_state\<lparr>self_index := 2\<rparr>)) + 1
   \<and> issued (spec_example_state\<lparr>self_index := 2\<rparr>)
        (cb_rpm_command \<lparr>rpm = [100, - 5]\<rparr> running_motor (spec_example_state\<lparr>self_index := 2\<rparr>))
       = [MotorStop]
   \<and> issued (spec_example_state\<lparr>self_index := 2\<rparr>)
        (cb_raw_command 8191 \<lparr>cmd = [8191, 8191]\<rparr> running_motor (spec_example_state\<lparr>self_index := 2\<rparr>))
       = [MotorStop]"
  using undersized_message_stops
    [of "\<lparr>cmd = [8191, 8191]\<rparr>" "spec_example_state\<lparr>self_index := 2\<rparr>" 8191 running_motor
        "\<lparr>rpm = [100, - 5]\<rparr>"]
  by (simp add: issued_def motor_stop_def)

text \<open>
  C3.  For an RPM command with at least \<open>self_index + 1\<close> slots, \<open>cb_rpm_command\<close> calls
  \<open>motor_set_rpm\<close> with the value of its slot and the command window when that value is
  positive, and \<open>motor_stop\<close> when it is zero or negative.  The call it makes is the same
  for every answer of the motor driver (idle or running) and every start-up limit.
\<close>

theorem cb_rpm_command_decision:
  assumes "unat (self_index s) + 1 \<le> length (rpm msg)"
  shows "cb_rpm_command msg dev s =
           (if 0 < rpm msg ! unat (self_index s)
            then motor_set_rpm (rpm msg ! unat (self_index s)) (command_ttl_ms s) s
            else motor_stop s)
       \<and> (0 < rpm msg ! unat (self_index s) \<longleftrightarrow>
            issued s (cb_rpm_command msg dev s)
              = [MotorSetRpm (rpm msg ! unat (self_index s)) (command_ttl_ms s)])
       \<and> (rpm msg ! unat (self_index s) \<le> 0 \<longleftrightarrow>
            issued s (cb_rpm_command msg dev s) = [MotorStop])
       \<and> issued s (cb_rpm_command msg dev s)
            = issued (s\<lparr>max_dc_to_start := limit\<rparr>)
                (cb_rpm_command msg dev' (s\<lparr>max_dc_to_start := limit\<rparr>))"
  using assms
  by (simp add: cb_rpm_command_def Let_def issued_def motor_set_rpm_def motor_stop_def)

theorem cb_rpm_command_decision_witness:
  "unat (self_index spec_example_state) + 1 \<le> length (rpm \<lparr>rpm = [0, 0, 0, 1500]\<rparr>)
   \<and> cb_rpm_command \<lparr>rpm = [0, 0, 0, 1500]\<rparr> idle_motor spec_example_state
       = motor_set_rpm 1500 200 spec_example_state
   \<and> unat (self_index spec_example_state) + 1 \<le> length (rpm \<lparr>rpm = [900, 900, 900, - 5, 900]\<rparr>)
   \<and> cb_rpm_command \<lparr>rpm = [900, 900, 900, - 5, 900]\<rparr> running_motor spec_example_state
       = motor_stop spec_example_state"
  using cb_rpm_command_decision [of spec_example_state "\<lparr>rpm = [0, 0, 0, 1500]\<rparr>" idle_motor]
    cb_rpm_command_decision [of spec_example_state "\<lparr>rpm = [900, 900, 900, - 5, 900]\<rparr>" running_motor]
  by simp

text \<open>
  C4.  Every invocation of \<open>cb_raw_command\<close> and of \<open>cb_rpm_command\<close> makes exactly one
  call of the motor driver, for every message and every state: the log of motor calls grows
  by one entry, which is a stop or the handler's own set call with the command window.
\<close>

theorem exactly_one_motor_call:
  "(\<exists>c. motor_calls (cb_raw_command raw_max rmsg dev s) = motor_calls s @ [c]
         \<and> (c = MotorStop \<or> (\<exists>dc. c = MotorSetDutyCycle dc (command_ttl_ms s))))
   \<and> (\<exists>c. motor_calls (cb_rpm_command pmsg dev s) = motor_calls s @ [c]
         \<and> (c = MotorStop \<or> (\<exists>r. c = MotorSetRpm r (command_ttl_ms s))))
   \<and> length (issued s (cb_raw_command raw_max rmsg dev s)) = 1
   \<and> length (issued s (cb_rpm_command pmsg dev s)) = 1"
  by (simp add: cb_raw_command_def cb_rpm_command_def Let_def issued_def
      motor_stop_def motor_set_duty_cycle_def motor_set_rpm_def)

theorem exactly_one_motor_call_witness:
  "length (issued spec_example_state
      (cb_raw_command 8191 \<lparr>cmd = [819, 1638, 2457, 7372, 4096]\<rparr> running_motor
         spec_example_state)) = 1
   \<and> length (issued spec_example_state
      (cb_rpm_command \<lparr>rpm = [100, - 5]\<rparr> running_motor spec_example_state)) = 1"
  using exactly_one_motor_call
    [of 8191 "\<lparr>cmd = [819, 1638, 2457, 7372, 4096]\<rparr>" running_motor spec_example_state
        "\<lparr>rpm = [100, - 5]\<rparr>"]
  by blast

text \<open>
  C10.  What a command handler does depends on the message only through the slot at
  \<open>self_index\<close>, and on the motor only through its idle flag.  Two raw commands with at
  least \<open>self_index + 1\<close> slots that agree at that slot, handled while the idle flag is the
  same, lead to the same state, whatever their other slots and their lengths are; two RPM
  commands that agree at that slot lead to the same state.
\<close>

theorem slot_noninterference:
  "(unat (self_index s) + 1 \<le> length (cmd m1) \<and> unat (self_index s) + 1 \<le> length (cmd m2)
      \<and> cmd m1 ! unat (self_index s) = cmd m2 ! unat (self_index s)
      \<and> motor_is_idle dev1 = motor_is_idle dev2
     \<longrightarrow> cb_raw_command raw_max m1 dev1 s = cb_raw_command raw_max m2 dev2 s)
   \<and> (unat (self_index s) + 1 \<le> length (rpm p1) \<and> unat (self_index s) + 1 \<le> length (rpm p2)
      \<and> rpm p1 ! unat (self_index s) = rpm p2 ! unat (self_index s)
     \<longrightarrow> cb_rpm_command p1 dev1 s = cb_rpm_command p2 dev2 s)"
  by (simp add: cb_raw_command_def cb_rpm_command_def scaled_dc_def)

theorem slot_noninterference_witness:
  "cb_raw_command 8191 \<lparr>cmd = [819, 1638, 2457, 7372, 4096]\<rparr> idle_motor spec_example_state
     = cb_raw_command 8191 \<lparr>cmd = [- 8192, 8191, 0, 7372]\<rparr>
         (idle_motor\<lparr>motor_get_rpm := 17, get_temperature_K := Finite (- 1)\<rparr>) spec_example_state
   \<and> cb_rpm_command \<lparr>rpm = [0, 0, 0, 1500]\<rparr> idle_motor spec_example_state
     = cb_rpm_command \<lparr>rpm = [9000, - 3, 7, 1500, 12, 12]\<rparr> running_motor spec_example_state"
  using slot_noninterference
    [of spec_example_state "\<lparr>cmd = [819, 1638, 2457, 7372, 4096]\<rparr>"
        "\<lparr>cmd = [- 8192, 8191, 0, 7372]\<rparr>" idle_motor
        "idle_motor\<lparr>motor_get_rpm := 17, get_temperature_K := Finite (- 1)\<rparr>" 8191]
    slot_noninterference
    [of spec_example_state _ _ idle_motor running_motor _
        "\<lparr>rpm = [0, 0, 0, 1500]\<rparr>" "\<lparr>rpm = [9000, - 3, 7, 1500, 12, 12]\<rparr>"]
  by simp

subsection \<open>The telemetry publisher\<close>

lemma div_1000_ge: "(990 \<le> (d::int) div 1000) = (990000 \<le> d)"
proof -
  have "d = 1000 * (d div 1000) + d mod 1000"
    by simp
  moreover have "0 \<le> d mod 1000" and "d mod 1000 < 1000"
    by simp_all
  ultimately show ?thesis
    by linarith
qed

lemma toMSec_ge_iff: "990 \<le> toMSec d \<longleftrightarrow> 990000 \<le> d"
proof (cases "0 < d")
  case True
  then have "toMSec d = d div 1000"
    by (simp add: toMSec_def)
  then show ?thesis
    by (simp add: div_1000_ge)
next
  case False
  then have "0 \<le> \<bar>d\<bar> div 1000"
    by (simp add: pos_imp_zdiv_nonneg_iff)
  with False have "toMSec d \<le> 0"
    by (simp add: toMSec_def sgn_if)
  with False show ?thesis
    by simp
qed

lemma msg_status_broadcasts [simp]: "msg_status dev (s\<lparr>broadcasts := b\<rparr>) = msg_status dev s"
  by (simp add: msg_status_def)

lemma cb_esc_broadcasts:
  "broadcasts (cb_esc ev dev s) =
     broadcasts s @ BroadcastRPMFeedback (msg_rpm_fb dev s)
       # (if 990 \<le> toMSec (time_diff (scheduled_time ev) (prev_pub_ts s))
          then [BroadcastStatus (msg_status dev s)] else [])"
  by (simp add: cb_esc_def Let_def broadcast_def)

lemma cb_esc_prev_pub_ts:
  "prev_pub_ts (cb_esc ev dev s) =
     (if 990 \<le> toMSec (time_diff (scheduled_time ev) (prev_pub_ts s))
      then scheduled_time ev else prev_pub_ts s)"
  by (simp add: cb_esc_def Let_def broadcast_def)

lemma cb_esc_status_sent:
  "status_sent s (cb_esc ev dev s) \<longleftrightarrow>
     990 \<le> toMSec (time_diff (scheduled_time ev) (prev_pub_ts s))"
  by (simp add: status_sent_def published_def cb_esc_broadcasts)

text \<open>
  C5.  On every timer tick, whatever \<open>prev_pub_ts\<close> is, \<open>cb_esc\<close> publishes an RPMFeedback
  message holding \<open>self_index\<close> and the motor's measured RPM.  It is the first message of
  the tick and the only feedback message; a Status message follows it exactly on the ticks
  that send one, so the feedback goes out with or without it.
\<close>

theorem feedback_every_tick:
  "broadcasts (cb_esc ev dev s) =
     broadcasts s
       @ BroadcastRPMFeedback \<lparr> fb_esc_index = self_index s, fb_rpm = motor_get_rpm dev \<rparr>
       # (if status_sent s (cb_esc ev dev s) then [BroadcastStatus (msg_status dev s)] else [])
   \<and> hd (published s (cb_esc ev dev s))
       = BroadcastRPMFeedback \<lparr> fb_esc_index = self_index s, fb_rpm = motor_get_rpm dev \<rparr>
   \<and> length (filter (\<lambda>m. \<not> is_status m) (published s (cb_esc ev dev s))) = 1"
  by (simp add: cb_esc_status_sent cb_esc_broadcasts published_def msg_rpm_fb_def)

lemma dispatch_command_prev_pub_ts:
  "prev_pub_ts (cb_raw_command raw_max rmsg dev s) = prev_pub_ts s"
  "prev_pub_ts (cb_rpm_command pmsg dev s) = prev_pub_ts s"
  by (simp_all add: cb_raw_command_def cb_rpm_command_def Let_def
      motor_stop_def motor_set_duty_cycle_def motor_set_rpm_def)

lemma spacing_trans:
  "990 \<le> toMSec (time_diff b a) \<Longrightarrow> 990 \<le> toMSec (time_diff c b) \<Longrightarrow> 990 \<le> toMSec (time_diff c a)"
  by (simp add: toMSec_ge_iff time_diff_def)


lemma status_times_spaced:
  "sorted_wrt (\<lambda>a b. 990 \<le> toMSec (time_diff b a)) (prev_pub_ts s # status_times raw_max evs s)"
proof (induction raw_max evs s rule: status_times.induct)
  case (1 raw_max s)
  show ?case by simp
next
  case (2 raw_max ev dev es s)
  let ?s' = "cb_esc ev dev s"
  show ?case
  proof (cases "status_sent s ?s'")
    case True
    then have late: "990 \<le> toMSec (time_diff (scheduled_time ev) (prev_pub_ts s))"
      by (simp add: cb_esc_status_sent)
    then have ts: "prev_pub_ts ?s' = scheduled_time ev"
      by (simp add: cb_esc_prev_pub_ts)
    from "2.IH" ts
    have ih: "sorted_wrt (\<lambda>a b. 990 \<le> toMSec (time_diff b a))
        (scheduled_time ev # status_times raw_max es ?s')"
      by simp
    have far: "990 \<le> toMSec (time_diff x (prev_pub_ts s))"
      if "x \<in> set (status_times raw_max es ?s')" for x
    proof -
      from ih that have "990 \<le> toMSec (time_diff x (scheduled_time ev))"
        by simp
      with late show ?thesis
        by (rule spacing_trans)
    qed
    from ih late True far show ?thesis
      by simp
  next
    case False
    then have "prev_pub_ts ?s' = prev_pub_ts s"
      by (simp add: cb_esc_status_sent cb_esc_prev_pub_ts)
    with "2.IH" False show ?thesis
      by simp
  qed
qed (simp_all add: dispatch_command_prev_pub_ts)

lemma run_prev_pub_ts:
  "prev_pub_ts (run raw_max evs s) = last (prev_pub_ts s # status_times raw_max evs s)"
proof (induction raw_max evs s rule: status_times.induct)
  case (1 raw_max s)
  show ?case by simp
next
  case (2 raw_max ev dev es s)
  then show ?case
    by (simp add: cb_esc_status_sent cb_esc_prev_pub_ts)
qed (simp_all add: dispatch_command_prev_pub_ts)

text \<open>
  C6.  On a timer tick the Status message is sent exactly when at least 990 ms (990000
  microseconds) lie between \<open>prev_pub_ts\<close> and the scheduled time of the tick;
  \<open>prev_pub_ts\<close> becomes the tick's scheduled time exactly when the message is sent and
  stays as it is otherwise.  So after any sequence of handler invocations \<open>prev_pub_ts\<close>
  is the time of the last Status message (or its initial value when none was sent), and
  any two Status messages of the sequence are at least 990 ms apart.
\<close>

theorem status_decimation:
  "(status_sent s (cb_esc ev dev s) \<longleftrightarrow>
      990 \<le> toMSec (time_diff (scheduled_time ev) (prev_pub_ts s)))
   \<and> (990 \<le> toMSec (time_diff (scheduled_time ev) (prev_pub_ts s)) \<longleftrightarrow>
      prev_pub_ts s + 990000 \<le> scheduled_time ev)
   \<and> prev_pub_ts (cb_esc ev dev s) =
      (if status_sent s (cb_esc ev dev s) then scheduled_time ev else prev_pub_ts s)
   \<and> prev_pub_ts (run raw_max evs s) = last (prev_pub_ts s # status_times raw_max evs s)
   \<and> sorted_wrt (\<lambda>a b. 990 \<le> toMSec (time_diff b a))
        (prev_pub_ts s # status_times raw_max evs s)"
proof -
  have "990 \<le> toMSec (time_diff (scheduled_time ev) (prev_pub_ts s)) \<longleftrightarrow>
      prev_pub_ts s + 990000 \<le> scheduled_time ev"
    unfolding toMSec_ge_iff time_diff_def by linarith
  then show ?thesis
    using status_times_spaced [of s raw_max evs] run_prev_pub_ts [of raw_max evs s]
      cb_esc_status_sent [of s ev dev] cb_esc_prev_pub_ts [of ev dev s]
    by simp
qed



lemma example_run_status_times:
  "status_times 8191 [tick_at 1000000, tick_at 1500000, tick_at 1960000, tick_at 2000000]
     spec_example_state = [1000000, 2000000]"
  by (simp add: cb_esc_status_sent cb_esc_prev_pub_ts toMSec_ge_iff time_diff_def)

text \<open>A tick without a Status message (0.5 s after start) and one with it (1 s).\<close>

theorem feedback_every_tick_witness:
  "hd (published spec_example_state
     (cb_esc \<lparr>scheduled_time = 500000, real_time = 500010\<rparr> running_motor spec_example_state))
     = BroadcastRPMFeedback \<lparr> fb_esc_index = 3, fb_rpm = 4200 \<rparr>
   \<and> hd (published spec_example_state
     (cb_esc \<lparr>scheduled_time = 1000000, real_time = 1000010\<rparr> running_motor spec_example_state))
     = BroadcastRPMFeedback \<lparr> fb_esc_index = 3, fb_rpm = 4200 \<rparr>"
  using feedback_every_tick
      [of "\<lparr>scheduled_time = 500000, real_time = 500010\<rparr>" running_motor spec_example_state]
    feedback_every_tick
      [of "\<lparr>scheduled_time = 1000000, real_time = 1000010\<rparr>" running_motor spec_example_state]
  by simp

text \<open>
  After a Status message at 1 s, the tick at 1.5 s sends none and the tick at 2 s sends the
  next one; of the ticks at 1 s, 1.5 s, 1.96 s and 2 s the first and the last send one.
\<close>

theorem status_decimation_witness:
  "\<not> status_sent (spec_example_state\<lparr>prev_pub_ts := 1000000\<rparr>)
       (cb_esc \<lparr>scheduled_time = 1500000, real_time = 1500000\<rparr> running_motor
          (spec_example_state\<lparr>prev_pub_ts := 1000000\<rparr>))
   \<and> status_sent (spec_example_state\<lparr>prev_pub_ts := 1000000\<rparr>)
       (cb_esc \<lparr>scheduled_time = 2000000, real_time = 2000000\<rparr> running_motor
          (spec_example_state\<lparr>prev_pub_ts := 1000000\<rparr>))
   \<and> prev_pub_ts
       (run 8191 [tick_at 1000000, tick_at 1500000, tick_at 1960000, tick_at 2000000]
          spec_example_state) = 2000000"
proof -
  let ?s = "spec_example_state\<lparr>prev_pub_ts := 1000000\<rparr>"
  let ?ticks = "[tick_at 1000000, tick_at 1500000, tick_at 1960000, tick_at 2000000]"
  have early: "status_sent ?s
      (cb_esc \<lparr>scheduled_time = 1500000, real_time = 1500000\<rparr> running_motor ?s)
      \<longleftrightarrow> prev_pub_ts ?s + 990000 \<le> scheduled_time \<lparr>scheduled_time = 1500000, real_time = 1500000\<rparr>"
    using status_decimation
      [of ?s "\<lparr>scheduled_time = 1500000, real_time = 1500000\<rparr>" running_motor 8191 "[]"]
    by blast
  have late: "status_sent ?s
      (cb_esc \<lparr>scheduled_time = 2000000, real_time = 2000000\<rparr> running_motor ?s)
      \<longleftrightarrow> prev_pub_ts ?s + 990000 \<le> scheduled_time \<lparr>scheduled_time = 2000000, real_time = 2000000\<rparr>"
    using status_decimation
      [of ?s "\<lparr>scheduled_time = 2000000, real_time = 2000000\<rparr>" running_motor 8191 "[]"]
    by blast
  have "prev_pub_ts (run 8191 ?ticks spec_example_state)
      = last (prev_pub_ts spec_example_state # status_times 8191 ?ticks spec_example_state)"
    using status_decimation
      [of spec_example_state "\<lparr>scheduled_time = 0, real_time = 0\<rparr>" running_motor 8191 ?ticks]
    by blast
  then have "prev_pub_ts (run 8191 ?ticks spec_example_state) = 2000000"
    by (simp only: example_run_status_times) simp
  with early late show ?thesis
    by simp
qed

subsection \<open>The Status message\<close>

lemma float_less_zero_cases:
  "float_less t (Finite 0) \<Longrightarrow> t \<noteq> NaN \<and> t \<noteq> Finite 0"
  by (cases t) auto

lemma float_le_zero_not_less: "float_le (Finite 0) t \<Longrightarrow> \<not> float_less t (Finite 0)"
  by (cases t) auto

lemma st_temperature_msg_status:
  "st_temperature (msg_status dev s) =
     (if float_less (get_temperature_K dev) (Finite 0) then NaN else get_temperature_K dev)"
  by (simp add: msg_status_def Let_def)

text \<open>
  C7.  On a tick where the temperature sensor returns a negative value, the temperature
  field of the Status message that \<open>cb_esc\<close> fills in is not-a-number, neither zero nor
  the sensor's value; the message is filled in all the same, whether it is sent depends on
  the elapsed time alone, and when it is sent it is this message.  For a reading that is
  zero or positive the field is the reading.
\<close>

theorem invalid_temperature_is_nan:
  "(float_less (get_temperature_K dev) (Finite 0) \<longrightarrow>
      st_temperature (msg_status dev s) = NaN
      \<and> st_temperature (msg_status dev s) \<noteq> Finite 0
      \<and> st_temperature (msg_status dev s) \<noteq> get_temperature_K dev
      \<and> (status_sent s (cb_esc ev dev s) \<longleftrightarrow>
           990 \<le> toMSec (time_diff (scheduled_time ev) (prev_pub_ts s)))
      \<and> (status_sent s (cb_esc ev dev s) \<longrightarrow>
           last (broadcasts (cb_esc ev dev s)) = BroadcastStatus (msg_status dev s)))
   \<and> (float_le (Finite 0) (get_temperature_K dev) \<longrightarrow>
      st_temperature (msg_status dev s) = get_temperature_K dev)"
  using float_less_zero_cases [of "get_temperature_K dev"]
    float_le_zero_not_less [of "get_temperature_K dev"]
  by (auto simp: st_temperature_msg_status cb_esc_status_sent cb_esc_broadcasts)

text \<open>The Status message of the example node at half duty cycle with an invalid temperature.\<close>

lemma msg_status_example:
  "msg_status cold_sensor spec_example_state =
     \<lparr> st_esc_index = 3, st_voltage = Finite 12, st_current = Finite 0,
       st_power_rating_pct = Some 50, st_error_count = 0, st_temperature = NaN \<rparr>"
  by code_simp

theorem invalid_temperature_is_nan_witness:
  "float_less (get_temperature_K cold_sensor) (Finite 0)
   \<and> float_le (Finite 0) (get_temperature_K running_motor)
   \<and> st_temperature (msg_status cold_sensor spec_example_state) = NaN
   \<and> last (broadcasts
        (cb_esc \<lparr>scheduled_time = 1000000, real_time = 1000000\<rparr> cold_sensor spec_example_state))
       = BroadcastStatus
           \<lparr> st_esc_index = 3, st_voltage = Finite 12, st_current = Finite 0,
             st_power_rating_pct = Some 50, st_error_count = 0, st_temperature = NaN \<rparr>
   \<and> st_temperature (msg_status running_motor spec_example_state) = Finite 300"
proof -
  have cold: "float_less (get_temperature_K cold_sensor) (Finite 0)"
    by simp
  have warm: "float_le (Finite 0) (get_temperature_K running_motor)"
    by simp
  have due: "990 \<le> toMSec (time_diff
      (scheduled_time \<lparr>scheduled_time = 1000000, real_time = 1000000\<rparr>)
      (prev_pub_ts spec_example_state))"
    by (simp add: toMSec_ge_iff time_diff_def)
  from cold due have
    "st_temperature (msg_status cold_sensor spec_example_state) = NaN"
    "last (broadcasts
        (cb_esc \<lparr>scheduled_time = 1000000, real_time = 1000000\<rparr> cold_sensor spec_example_state))
       = BroadcastStatus (msg_status cold_sensor spec_example_state)"
    using invalid_temperature_is_nan
      [of cold_sensor spec_example_state "\<lparr>scheduled_time = 1000000, real_time = 1000000\<rparr>"]
    by blast+
  moreover from warm have "st_temperature (msg_status running_motor spec_example_state) = Finite 300"
    using invalid_temperature_is_nan [of running_motor spec_example_state]
    by simp
  ultimately show ?thesis
    using cold warm by (simp only: msg_status_example)
qed


subsection \<open>Bring-up and the configuration\<close>

lemma init_esc_controller_cases:
  "init_esc_controller p node s =
     (let s0 = s\<lparr>publish_rate_ms := param_pub_rate_ms p,
                  self_index := param_esc_index p,
                  command_ttl_ms := param_cmd_ttl_ms p,
                  max_dc_to_start := param_cmd_start_dc p\<rparr>
      in if sub_raw_command_start node \<noteq> 0
         then (sub_raw_command_start node,
               s0\<lparr>setup_calls := setup_calls s @ [SubRawCommandStart]\<rparr>)
         else if sub_rpm_command_start node \<noteq> 0
         then (sub_rpm_command_start node,
               s0\<lparr>setup_calls := setup_calls s @ [SubRawCommandStart, SubRpmCommandStart]\<rparr>)
         else if pub_status_init node \<noteq> 0
         then (pub_status_init node,
               s0\<lparr>setup_calls := setup_calls s
                     @ [SubRawCommandStart, SubRpmCommandStart, PubStatusInit]\<rparr>)
         else if pub_rpm_fb_init node \<noteq> 0
         then (pub_rpm_fb_init node,
               s0\<lparr>setup_calls := setup_calls s
                     @ [SubRawCommandStart, SubRpmCommandStart, PubStatusInit, PubRpmFbInit]\<rparr>)
         else (0,
               s0\<lparr>setup_calls := setup_calls s
                     @ [SubRawCommandStart, SubRpmCommandStart, PubStatusInit, PubRpmFbInit,
                        TimerSetCallback,
                        TimerStartPeriodic (fromMSec (uint (param_pub_rate_ms p)))]\<rparr>))"
  by (simp add: init_esc_controller_def Let_def node_call_def)

text \<open>
  C8.  \<open>init_esc_controller\<close> returns the return code of the first of the four calls
  (starting the two subscribers, initialising the two publishers) that does not return 0,
  as it is, and makes no further call into the bus library after it; in particular it does
  not start the timer.  It returns 0 exactly when all four calls return 0, and exactly then
  it starts the periodic timer, after the four calls, with the configured period.
\<close>

theorem init_esc_controller_result:
  fixes p :: params and node :: node_results and s :: esc_controller
  defines "res \<equiv> fst (init_esc_controller p node s)"
  defines "calls \<equiv> requested s (snd (init_esc_controller p node s))"
  defines "all_ok \<equiv> sub_raw_command_start node = 0 \<and> sub_rpm_command_start node = 0
                     \<and> pub_status_init node = 0 \<and> pub_rpm_fb_init node = 0"
  shows "(sub_raw_command_start node \<noteq> 0 \<longrightarrow>
            res = sub_raw_command_start node \<and> calls = [SubRawCommandStart])
       \<and> (sub_raw_command_start node = 0 \<and> sub_rpm_command_start node \<noteq> 0 \<longrightarrow>
            res = sub_rpm_command_start node \<and> calls = [SubRawCommandStart, SubRpmCommandStart])
       \<and> (sub_raw_command_start node = 0 \<and> sub_rpm_command_start node = 0
            \<and> pub_status_init node \<noteq> 0 \<longrightarrow>
            res = pub_status_init node
            \<and> calls = [SubRawCommandStart, SubRpmCommandStart, PubStatusInit])
       \<and> (sub_raw_command_start node = 0 \<and> sub_rpm_command_start node = 0
            \<and> pub_status_init node = 0 \<and> pub_rpm_fb_init node \<noteq> 0 \<longrightarrow>
            res = pub_rpm_fb_init node
            \<and> calls = [SubRawCommandStart, SubRpmCommandStart, PubStatusInit, PubRpmFbInit])
       \<and> (all_ok \<longrightarrow>
            res = 0
            \<and> calls = [SubRawCommandStart, SubRpmCommandStart, PubStatusInit, PubRpmFbInit,
                        TimerSetCallback,
                        TimerStartPeriodic (fromMSec (uint (param_pub_rate_ms p)))])
       \<and> (res = 0 \<longleftrightarrow> all_ok)
       \<and> (list_ex is_timer_start calls \<longleftrightarrow> all_ok)"
  unfolding res_def calls_def all_ok_def requested_def init_esc_controller_cases Let_def
  by simp

text \<open>A failure at each of the four calls in turn, and a bring-up in which all succeed.\<close>

theorem init_esc_controller_result_witness:
  "fst (init_esc_controller example_params (all_started\<lparr>sub_raw_command_start := - 1\<rparr>)
         static_init) = - 1
   \<and> requested static_init
        (snd (init_esc_controller example_params (all_started\<lparr>sub_raw_command_start := - 1\<rparr>)
           static_init))
       = [SubRawCommandStart]
   \<and> fst (init_esc_controller example_params (all_started\<lparr>sub_rpm_command_start := - 3\<rparr>)
         static_init) = - 3
   \<and> fst (init_esc_controller example_params (all_started\<lparr>pub_status_init := - 2\<rparr>)
         static_init) = - 2
   \<and> requested static_init
        (snd (init_esc_controller example_params (all_started\<lparr>pub_status_init := - 2\<rparr>)
           static_init))
       = [SubRawCommandStart, SubRpmCommandStart, PubStatusInit]
   \<and> fst (init_esc_controller example_params (all_started\<lparr>pub_rpm_fb_init := 7\<rparr>)
         static_init) = 7
   \<and> fst (init_esc_controller example_params all_started static_init) = 0
   \<and> requested static_init (snd (init_esc_controller example_params all_started static_init))
       = [SubRawCommandStart, SubRpmCommandStart, PubStatusInit, PubRpmFbInit,
          TimerSetCallback, TimerStartPeriodic 40000]"
  using init_esc_controller_result
      [of "all_started\<lparr>sub_raw_command_start := - 1\<rparr>" example_params static_init]
    init_esc_controller_result
      [of "all_started\<lparr>sub_rpm_command_start := - 3\<rparr>" example_params static_init]
    init_esc_controller_result
      [of "all_started\<lparr>pub_status_init := - 2\<rparr>" example_params static_init]
    init_esc_controller_result
      [of "all_started\<lparr>pub_rpm_fb_init := 7\<rparr>" example_params static_init]
    init_esc_controller_result [of all_started example_params static_init]
  by (simp add: fromMSec_def)

lemma cb_raw_command_frame:
  "cb_raw_command raw_max msg dev s = s\<lparr>motor_calls := motor_calls (cb_raw_command raw_max msg dev s)\<rparr>"
  by (simp add: cb_raw_command_def Let_def motor_stop_def motor_set_duty_cycle_def)

lemma cb_rpm_command_frame:
  "cb_rpm_command msg dev s = s\<lparr>motor_calls := motor_calls (cb_rpm_command msg dev s)\<rparr>"
  by (simp add: cb_rpm_command_def Let_def motor_stop_def motor_set_rpm_def)

lemma cb_esc_frame:
  "cb_esc ev dev s =
     s\<lparr>prev_pub_ts := prev_pub_ts (cb_esc ev dev s), broadcasts := broadcasts (cb_esc ev dev s)\<rparr>"
  by (simp add: cb_esc_def Let_def broadcast_def)

lemma dispatch_config:
  "publish_rate_ms (dispatch raw_max e s) = publish_rate_ms s
   \<and> self_index (dispatch raw_max e s) = self_index s
   \<and> command_ttl_ms (dispatch raw_max e s) = command_ttl_ms s
   \<and> max_dc_to_start (dispatch raw_max e s) = max_dc_to_start s"
proof (cases e)
  case (RawCommandReceived msg dev)
  have "dispatch raw_max e s = s\<lparr>motor_calls := motor_calls (cb_raw_command raw_max msg dev s)\<rparr>"
    using cb_raw_command_frame [of raw_max msg dev s] RawCommandReceived by simp
  then show ?thesis
    by simp
next
  case (RpmCommandReceived msg dev)
  have "dispatch raw_max e s = s\<lparr>motor_calls := motor_calls (cb_rpm_command msg dev s)\<rparr>"
    using cb_rpm_command_frame [of msg dev s] RpmCommandReceived by simp
  then show ?thesis
    by simp
next
  case (TimerTick ev dev)
  have "dispatch raw_max e s =
      s\<lparr>prev_pub_ts := prev_pub_ts (cb_esc ev dev s), broadcasts := broadcasts (cb_esc ev dev s)\<rparr>"
    using cb_esc_frame [of ev dev s] TimerTick by simp
  then show ?thesis
    by simp
qed

lemma run_config:
  "publish_rate_ms (run raw_max evs s) = publish_rate_ms s
   \<and> self_index (run raw_max evs s) = self_index s
   \<and> command_ttl_ms (run raw_max evs s) = command_ttl_ms s
   \<and> max_dc_to_start (run raw_max evs s) = max_dc_to_start s"
proof (induction evs arbitrary: s)
  case Nil
  show ?case by simp
next
  case (Cons e es)
  from Cons.IH [of "dispatch raw_max e s"] dispatch_config [of raw_max e s]
  show ?case by simp
qed

lemma init_esc_controller_config:
  "publish_rate_ms (snd (init_esc_controller p node s)) = param_pub_rate_ms p
   \<and> self_index (snd (init_esc_controller p node s)) = param_esc_index p
   \<and> command_ttl_ms (snd (init_esc_controller p node s)) = param_cmd_ttl_ms p
   \<and> max_dc_to_start (snd (init_esc_controller p node s)) = param_cmd_start_dc p"
  by (simp add: init_esc_controller_cases Let_def)

text \<open>
  C9.  After \<open>init_esc_controller\<close>, whatever it returned, every sequence of handler
  invocations leaves \<open>publish_rate_ms\<close>, \<open>self_index\<close>, \<open>command_ttl_ms\<close> and
  \<open>max_dc_to_start\<close> at the values taken from the configuration; no handler changes them
  in any state.  Of the module's variables the timer callback changes \<open>prev_pub_ts\<close> only
  (besides appending to the log of published messages), and a command handler changes none
  (it appends to the log of motor calls).
\<close>

theorem configuration_never_modified:
  "publish_rate_ms (run raw_max evs (snd (init_esc_controller p node s0))) = param_pub_rate_ms p
   \<and> self_index (run raw_max evs (snd (init_esc_controller p node s0))) = param_esc_index p
   \<and> command_ttl_ms (run raw_max evs (snd (init_esc_controller p node s0))) = param_cmd_ttl_ms p
   \<and> max_dc_to_start (run raw_max evs (snd (init_esc_controller p node s0))) = param_cmd_start_dc p
   \<and> publish_rate_ms (run raw_max evs s) = publish_rate_ms s
   \<and> self_index (run raw_max evs s) = self_index s
   \<and> command_ttl_ms (run raw_max evs s) = command_ttl_ms s
   \<and> max_dc_to_start (run raw_max evs s) = max_dc_to_start s
   \<and> cb_esc ev dev s =
       s\<lparr>prev_pub_ts := prev_pub_ts (cb_esc ev dev s), broadcasts := broadcasts (cb_esc ev dev s)\<rparr>
   \<and> cb_raw_command raw_max rmsg dev s
       = s\<lparr>motor_calls := motor_calls (cb_raw_command raw_max rmsg dev s)\<rparr>
   \<and> cb_rpm_command pmsg dev s = s\<lparr>motor_calls := motor_calls (cb_rpm_command pmsg dev s)\<rparr>"
  using run_config [of raw_max evs "snd (init_esc_controller p node s0)"]
    run_config [of raw_max evs s] init_esc_controller_config [of p node s0]
    cb_esc_frame [of ev dev s] cb_raw_command_frame [of raw_max rmsg dev s]
    cb_rpm_command_frame [of pmsg dev s]
  by simp

theorem configuration_never_modified_witness:
  "self_index
     (run 8191
        [RawCommandReceived \<lparr>cmd = [819, 1638, 2457, 7372, 4096]\<rparr> idle_motor,
         tick_at 1000000,
         RpmCommandReceived \<lparr>rpm = [0, 0, 0, 1500]\<rparr> running_motor,
         tick_at 1040000]
        (snd (init_esc_controller example_params all_started static_init))) = 3
   \<and> max_dc_to_start
     (run 8191
        [RawCommandReceived \<lparr>cmd = [819, 1638, 2457, 7372, 4096]\<rparr> idle_motor,
         tick_at 1000000,
         RpmCommandReceived \<lparr>rpm = [0, 0, 0, 1500]\<rparr> running_motor,
         tick_at 1040000]
        (snd (init_esc_controller example_params all_started static_init))) = Finite (13421773 / 268435456)"
proof -
  let ?evs = "[RawCommandReceived \<lparr>cmd = [819, 1638, 2457, 7372, 4096]\<rparr> idle_motor,
         tick_at 1000000,
         RpmCommandReceived \<lparr>rpm = [0, 0, 0, 1500]\<rparr> running_motor,
         tick_at 1040000]"
  note frozen = configuration_never_modified
    [where raw_max = 8191 and evs = ?evs and p = example_params and node = all_started
       and ?s0.0 = static_init and s = static_init
       and ev = "\<lparr>scheduled_time = 0, real_time = 0\<rparr>" and dev = idle_motor
       and rmsg = "\<lparr>cmd = []\<rparr>" and pmsg = "\<lparr>rpm = []\<rparr>"]
  from frozen have
    "self_index (run 8191 ?evs (snd (init_esc_controller example_params all_started static_init)))
       = param_esc_index example_params"
    by (rule conjunct2 [THEN conjunct1])
  moreover from frozen have
    "max_dc_to_start (run 8191 ?evs (snd (init_esc_controller example_params all_started static_init)))
       = param_cmd_start_dc example_params"
    by (rule conjunct2 [THEN conjunct2, THEN conjunct2, THEN conjunct1])
  ultimately show ?thesis
    by (simp only: params.simps)
qed

end
